theory Spec2Isabelle
  imports Complex_Main "HOL-Library.Multiset" "HOL-Library.Sublist"
begin

section \<open>The RPLidar provider: data model\<close>

text \<open>
  The model follows \<^verbatim>\<open>src/providers/rplidar_provider.py\<close>. Python floats are
  idealised as real numbers, so \<^verbatim>\<open>math.sqrt\<close>, \<^verbatim>\<open>math.cos\<close>,
  \<^verbatim>\<open>math.sin\<close> and \<^verbatim>\<open>math.pi\<close> are the exact functions and rounding is
  not modelled. Corridor ids are natural numbers.
\<close>

datatype py_error = IndexError

text \<open>The constructor arguments that the processing code reads.\<close>

record config =
  half_width_robot :: real
  angles_blanked :: "(real \<times> real) list"
  max_relevant_distance :: real
  sensor_mounting_angle :: real
  use_zenoh :: bool
  simple_paths :: bool

text \<open>One row \<^verbatim>\<open>[x, y, angle, d_m]\<close> of the transformed array.\<close>

type_synonym tpoint = "real \<times> real \<times> real \<times> real"

text \<open>The three attributes written at the end of a cycle.\<close>

record snapshot =
  raw_scan :: "tpoint list"
  lidar_string :: string
  valid_paths :: "nat list"

section \<open>Path planning data\<close>

text \<open>
  A curve is the 2 x 3 node matrix handed to \<^verbatim>\<open>bezier.Curve(..., degree=2)\<close>:
  the first row holds the first coordinates of the three control points, the
  second row the second coordinates.
\<close>

type_synonym curve = "(real \<times> real \<times> real) \<times> (real \<times> real \<times> real)"

definition curves :: "curve list" where
  "curves =
    [((0.0, -0.3, -0.75), (0.0, 0.5, 0.40)),
     ((0.0, -0.3, -0.70), (0.0, 0.6, 0.70)),
     ((0.0, -0.2, -0.60), (0.0, 0.7, 0.90)),
     ((0.0, -0.1, -0.35), (0.0, 0.7, 1.03)),
     ((0.0, 0.0, 0.00), (0.0, 0.5, 1.05)),
     ((0.0, 0.1, 0.35), (0.0, 0.7, 1.03)),
     ((0.0, 0.2, 0.60), (0.0, 0.7, 0.90)),
     ((0.0, 0.3, 0.70), (0.0, 0.6, 0.70)),
     ((0.0, 0.3, 0.75), (0.0, 0.5, 0.40)),
     ((0.0, 0.0, 0.00), (0.0, -0.5, -1.05))]"

text \<open>
  The \<^verbatim>\<open>bezier\<close> and \<^verbatim>\<open>numpy\<close> packages are external libraries.
  \<open>bezier2\<close> is the quadratic Bernstein form that \<^verbatim>\<open>Curve.evaluate_multi\<close>
  computes for each coordinate row of a curve of degree 2, and \<open>linspace\<close> is
  \<^verbatim>\<open>numpy.linspace\<close>: \<open>num\<close> equally spaced values from \<open>start\<close> to
  \<open>stop\<close>.
\<close>

fun bezier2 :: "real \<times> real \<times> real \<Rightarrow> real \<Rightarrow> real" where
  "bezier2 (n0, n1, n2) s = (1 - s) * (1 - s) * n0 + 2 * (1 - s) * s * n1 + s * s * n2"

definition evaluate_multi :: "curve \<Rightarrow> real list \<Rightarrow> real list \<times> real list" where
  "evaluate_multi c svals = (map (bezier2 (fst c)) svals, map (bezier2 (snd c)) svals)"

definition linspace :: "real \<Rightarrow> real \<Rightarrow> nat \<Rightarrow> real list" where
  "linspace start stop num =
     map (\<lambda>i. start + real i * ((stop - start) / real (num - 1))) [0..<num]"

definition s_vals :: "real list" where
  "s_vals = linspace 0.0 1.0 10"

text \<open>\<^verbatim>\<open>_init_path_planning\<close>: the list \<^verbatim>\<open>self.pp\<close> of sampled corridors.\<close>

definition pp :: "(real \<times> real) list list" where
  "pp = map (\<lambda>curve. let cp = evaluate_multi curve s_vals in zip (fst cp) (snd cp)) curves"

text \<open>\<^verbatim>\<open>self.pp[apath]\<close>: an index past the end raises \<^verbatim>\<open>IndexError\<close>.\<close>

definition pp_at :: "nat \<Rightarrow> py_error + (real \<times> real) list" where
  "pp_at apath = (if apath < length pp then Inr (pp ! apath) else Inl IndexError)"

section \<open>Coordinate transformation\<close>

text \<open>The mounting correction, the wrap into [0, 360) and the shift by 180 degrees.\<close>

definition robot_angle :: "config \<Rightarrow> real \<Rightarrow> real" where
  "robot_angle cfg angle0 =
     (let angle = angle0 + sensor_mounting_angle cfg;
          angle = (if angle \<ge> 360.0 then angle - 360.0
                   else if angle < 0.0 then 360.0 + angle
                   else angle)
      in angle - 180.0)"

text \<open>The loop over \<^verbatim>\<open>self.angles_blanked\<close> that sets \<^verbatim>\<open>reflection\<close>.\<close>

fun reflection :: "(real \<times> real) list \<Rightarrow> real \<Rightarrow> bool" where
  "reflection [] angle = False"
| "reflection (b # bs) angle =
     (if angle \<ge> fst b \<and> angle \<le> snd b then True else reflection bs angle)"

fun transform_coordinates :: "config \<Rightarrow> (real \<times> real) list \<Rightarrow> tpoint list" where
  "transform_coordinates cfg [] = []"
| "transform_coordinates cfg ((angle0, distance) # data) =
     (let d_m = distance in
      if d_m > max_relevant_distance cfg then transform_coordinates cfg data
      else
        let angle = robot_angle cfg angle0 in
        if reflection (angles_blanked cfg) angle then transform_coordinates cfg data
        else
          let a_rad = (angle + 180.0) * pi / 180.0;
              v1 = d_m * cos a_rad;
              v2 = d_m * sin a_rad;
              x = -1 * v2;
              y = -1 * v1
          in (x, y, angle, d_m) # transform_coordinates cfg data)"

section \<open>Path pruning\<close>

text \<open>
  \<^verbatim>\<open>numpy.setdiff1d(ar1, ar2)\<close>: the sorted, unique values of \<open>ar1\<close> that are
  not in \<open>ar2\<close>.
\<close>

definition setdiff1d :: "nat list \<Rightarrow> nat list \<Rightarrow> nat list" where
  "setdiff1d ar1 ar2 = filter (\<lambda>v. v \<notin> set ar2) (sort (remdups ar1))"

text \<open>The distance of a scan point (x, y) from one sample point of a corridor.\<close>

definition sample_dist :: "real \<Rightarrow> real \<Rightarrow> real \<times> real \<Rightarrow> real" where
  "sample_dist x y point =
     (let p1 = x - fst point; p2 = y - snd point in sqrt (p1 * p1 + p2 * p2))"

text \<open>
  The innermost loop, over the sample points of corridor \<open>apath\<close>: the first
  sample closer than the half width removes the corridor and leaves the loop.
\<close>

fun sample_loop :: "real \<Rightarrow> real \<Rightarrow> real \<Rightarrow> nat \<Rightarrow> (real \<times> real) list \<Rightarrow> nat list \<Rightarrow> nat list" where
  "sample_loop hw x y apath [] possible_paths = possible_paths"
| "sample_loop hw x y apath (point # points) possible_paths =
     (if sample_dist x y point < hw
      then setdiff1d possible_paths [apath]
      else sample_loop hw x y apath points possible_paths)"

text \<open>
  The loop \<^verbatim>\<open>for apath in possible_paths\<close>. It runs over the array that the
  name was bound to when the loop started (first argument), while the
  assignments inside rebind the name (last argument).
\<close>

fun path_loop :: "real \<Rightarrow> real \<Rightarrow> real \<Rightarrow> nat list \<Rightarrow> nat list \<Rightarrow> py_error + nat list" where
  "path_loop hw x y [] possible_paths = Inr possible_paths"
| "path_loop hw x y (apath # rest) possible_paths =
     (case pp_at apath of
        Inl e \<Rightarrow> Inl e
      | Inr points \<Rightarrow> path_loop hw x y rest (sample_loop hw x y apath points possible_paths))"

text \<open>The outer loop over the rows of the sorted array.\<close>

fun check_path_collisions :: "real \<Rightarrow> tpoint list \<Rightarrow> nat list \<Rightarrow> py_error + nat list" where
  "check_path_collisions hw [] possible_paths = Inr possible_paths"
| "check_path_collisions hw ((x, y, angle, d) # array) possible_paths =
     (case path_loop hw x y possible_paths possible_paths of
        Inl e \<Rightarrow> Inl e
      | Inr possible_paths' \<Rightarrow> check_path_collisions hw array possible_paths')"

section \<open>Classification\<close>

fun categorize_loop ::
  "nat list \<Rightarrow> nat list \<times> nat list \<times> nat list \<times> nat list \<Rightarrow>
     nat list \<times> nat list \<times> nat list \<times> nat list" where
  "categorize_loop [] acc = acc"
| "categorize_loop (p # ps) (turn_left, advance, turn_right, retreat) =
     categorize_loop ps
       (if p < 4 then (turn_left @ [p], advance, turn_right, retreat)
        else if p = 4 then (turn_left, advance @ [p], turn_right, retreat)
        else if p < 9 then (turn_left, advance, turn_right @ [p], retreat)
        else if p = 9 then (turn_left, advance, turn_right, retreat @ [p])
        else (turn_left, advance, turn_right, retreat))"

definition categorize_paths ::
  "nat list \<Rightarrow> nat list \<times> nat list \<times> nat list \<times> nat list \<times> nat list" where
  "categorize_paths possible_paths =
     (let ppl = possible_paths;
          (turn_left, advance, turn_right, retreat) = categorize_loop ppl ([], [], [], [])
      in (turn_left, advance, turn_right, retreat, ppl))"

definition surrounded_message :: string where
  "surrounded_message =
     ''You are surrounded by objects and cannot safely move in any direction. DO NOT MOVE.''"

definition generate_movement_string ::
  "config \<Rightarrow> nat list \<Rightarrow> nat list \<Rightarrow> nat list \<Rightarrow> nat list \<Rightarrow> nat list \<Rightarrow> string" where
  "generate_movement_string cfg turn_left advance turn_right retreat ppl =
     (if length ppl = 0 then surrounded_message
      else
        let return_string = ''The safe movement directions are: {'';
            return_string =
              (if use_zenoh cfg then
                 (if length advance > 0
                  then return_string @ '''turn left', 'turn right', 'move forwards', ''
                  else return_string @ '''turn left', 'turn right', '')
               else
                 (let return_string =
                        (if length turn_left > 0 then return_string @ '''turn left', ''
                         else return_string);
                      return_string =
                        (if length advance > 0 then return_string @ '''move forwards', ''
                         else return_string);
                      return_string =
                        (if length turn_right > 0 then return_string @ '''turn right', ''
                         else return_string);
                      return_string =
                        (if length retreat > 0 then return_string @ '''move back', ''
                         else return_string)
                  in return_string))
        in return_string @ '''stand still'}. '')"

section \<open>One processing cycle\<close>

text \<open>
  \<^verbatim>\<open>array[:, 2].argsort()\<close> orders the rows by angle. The stable \<open>sort_key\<close>
  stands for it; numpy's default sort may order rows of equal angle differently,
  which the theorems below show to be without effect on the surviving paths.
  An array built from an empty list has one dimension, so \<^verbatim>\<open>array.ndim > 1\<close>
  holds exactly when at least one row was produced.
\<close>

definition process :: "config \<Rightarrow> (real \<times> real) list \<Rightarrow> py_error + snapshot" where
  "process cfg data =
     (let array = transform_coordinates cfg data;
          possible_paths = [0, 1, 2, 3, 4, 5, 6, 7, 8, 9];
          possible_paths = (if simple_paths cfg then [4] else possible_paths);
          pruned =
            (if array \<noteq> [] then
               (let array = sort_key (\<lambda>(x, y, angle, d). angle) array in
                case check_path_collisions (half_width_robot cfg) array possible_paths of
                  Inl e \<Rightarrow> Inl e
                | Inr possible_paths \<Rightarrow> Inr (array, possible_paths))
             else Inr (array, possible_paths))
      in case pruned of
           Inl e \<Rightarrow> Inl e
         | Inr (array, possible_paths) \<Rightarrow>
             (let (turn_left, advance, turn_right, retreat, ppl) = categorize_paths possible_paths;
                  return_string =
                    generate_movement_string cfg turn_left advance turn_right retreat ppl
              in Inr \<lparr>raw_scan = array, lidar_string = return_string, valid_paths = ppl\<rparr>))"

text \<open>
  \<^verbatim>\<open>_preprocess_zenoh\<close>. The argument \<open>scan\<close> is \<open>None\<close> while no message has
  arrived, otherwise the ranges of the latest message; \<open>angles_final\<close> is the
  cached list of angles in degrees that the source derives from the header of
  the first message.
\<close>

definition preprocess_zenoh :: "config \<Rightarrow> real list \<Rightarrow> real list option \<Rightarrow> py_error + snapshot" where
  "preprocess_zenoh cfg angles_final scan =
     (case scan of
        None \<Rightarrow>
          Inr \<lparr>raw_scan = [],
               lidar_string = ''You might be surrounded by objects and cannot safely move in any direction. DO NOT MOVE.'',
               valid_paths = []\<rparr>
      | Some ranges \<Rightarrow> process cfg (zip angles_final ranges))"

section \<open>Publication of the results\<close>

text \<open>
  The attributes \<^verbatim>\<open>self._raw_scan\<close>, \<^verbatim>\<open>self._lidar_string\<close> and
  \<^verbatim>\<open>self._valid_paths\<close>, each \<^verbatim>\<open>None\<close> after construction. The properties
  \<^verbatim>\<open>raw_scan\<close>, \<^verbatim>\<open>lidar_string\<close> and \<^verbatim>\<open>valid_paths\<close> return them as
  they are, without a lock.
\<close>

record provider =
  attr_raw_scan :: "tpoint list option"
  attr_lidar_string :: "string option"
  attr_valid_paths :: "nat list option"

definition initial_provider :: provider where
  "initial_provider =
     \<lparr>attr_raw_scan = None, attr_lidar_string = None, attr_valid_paths = None\<rparr>"

text \<open>
  The three assignments that end \<^verbatim>\<open>_process\<close>, in the order of the source.
  The result lists the attribute state after each assignment: these are the
  states that another thread can read while the cycle is being published.
\<close>

definition publish :: "provider \<Rightarrow> snapshot \<Rightarrow> provider list" where
  "publish st s =
     (let st1 = st\<lparr>attr_raw_scan := Some (raw_scan s)\<rparr>;
          st2 = st1\<lparr>attr_lidar_string := Some (lidar_string s)\<rparr>;
          st3 = st2\<lparr>attr_valid_paths := Some (valid_paths s)\<rparr>
      in [st1, st2, st3])"

text \<open>One cycle of \<^verbatim>\<open>_process\<close> on the attributes left by the cycle before.\<close>

definition process_states ::
  "config \<Rightarrow> provider \<Rightarrow> (real \<times> real) list \<Rightarrow> py_error + provider list" where
  "process_states cfg st data =
     (case process cfg data of
        Inl e \<Rightarrow> Inl e
      | Inr s \<Rightarrow> Inr (publish st s))"

section \<open>Notions used to state the properties\<close>

text \<open>
  A scan point is near corridor \<open>c\<close> when one of the sample points of the
  corridor is closer to it than \<open>hw\<close>, by the distance the inner loop computes.
\<close>

definition near_corridor :: "real \<Rightarrow> nat \<Rightarrow> tpoint \<Rightarrow> bool" where
  "near_corridor hw c p =
     (\<exists>q\<in>set (pp ! c). sample_dist (fst p) (fst (snd p)) q < hw)"

text \<open>
  The string rendered for a list of surviving ids, and the ids of the starting
  list that no point of an array is near to.
\<close>

definition movement_string :: "config \<Rightarrow> nat list \<Rightarrow> string" where
  "movement_string cfg ps =
     generate_movement_string cfg (filter (\<lambda>p. p < 4) ps) (filter (\<lambda>p. p = 4) ps)
       (filter (\<lambda>p. 4 < p \<and> p < 9) ps) (filter (\<lambda>p. p = 9) ps) ps"

definition survivors :: "config \<Rightarrow> tpoint list \<Rightarrow> nat list" where
  "survivors cfg array =
     filter (\<lambda>c. \<not> (\<exists>p\<in>set array. near_corridor (half_width_robot cfg) c p))
       (if simple_paths cfg then [4] else [0, 1, 2, 3, 4, 5, 6, 7, 8, 9])"

text \<open>The default arguments of the constructor.\<close>

definition default_config :: config where
  "default_config =
     \<lparr>half_width_robot = 0.20, angles_blanked = [], max_relevant_distance = 1.1,
      sensor_mounting_angle = 180.0, use_zenoh = False, simple_paths = False\<rparr>"

section \<open>Properties of the loops\<close>

lemma sample_dist_less:
  "sample_dist x y q < hw \<longleftrightarrow>
     0 < hw \<and> (x - fst q) * (x - fst q) + (y - snd q) * (y - snd q) < hw * hw"
proof -
  let ?a = "(x - fst q) * (x - fst q) + (y - snd q) * (y - snd q)"
  have a0: "0 \<le> ?a" by simp
  have sd: "sample_dist x y q = sqrt ?a" by (simp add: sample_dist_def Let_def)
  show ?thesis
  proof (cases "0 < hw")
    case False
    have "0 \<le> sqrt ?a" using a0 by simp
    with False have "\<not> sqrt ?a < hw" by linarith
    with False show ?thesis by (simp only: sd) simp
  next
    case True
    have "sqrt ?a < hw \<longleftrightarrow> sqrt ?a < sqrt (hw * hw)" using True by simp
    also have "\<dots> \<longleftrightarrow> ?a < hw * hw" by (rule real_sqrt_less_iff)
    finally show ?thesis using True by (simp only: sd) simp
  qed
qed

lemma length_pp: "length pp = 10"
  by (simp add: pp_def curves_def)

lemma s_vals_eq: "s_vals = [0, 1/9, 2/9, 3/9, 4/9, 5/9, 6/9, 7/9, 8/9, 1]"
  by (simp add: s_vals_def linspace_def upt_rec)

lemma set_setdiff1d: "set (setdiff1d ar1 ar2) = set ar1 - set ar2"
  by (auto simp: setdiff1d_def)

lemma sorted_setdiff1d: "sorted (setdiff1d ar1 ar2)"
  by (simp add: setdiff1d_def sorted_wrt_filter)
lemma distinct_setdiff1d: "distinct (setdiff1d ar1 ar2)"
  by (simp add: setdiff1d_def)

lemma setdiff1d_sorted_distinct:
  "sorted ar1 \<Longrightarrow> distinct ar1 \<Longrightarrow> setdiff1d ar1 ar2 = filter (\<lambda>v. v \<notin> set ar2) ar1"
  by (simp add: setdiff1d_def distinct_remdups_id sorted_sort_id)

lemma sample_loop_eq:
  "sample_loop hw x y apath points ps =
     (if \<exists>q\<in>set points. sample_dist x y q < hw then setdiff1d ps [apath] else ps)"
  by (induction points) auto

lemma path_loop_sorted:
  "set rest \<subseteq> {..<length pp} \<Longrightarrow> sorted ps \<Longrightarrow> distinct ps \<Longrightarrow>
   path_loop hw x y rest ps =
     Inr (filter (\<lambda>c. \<not> (c \<in> set rest \<and> near_corridor hw c (x, y, a, d))) ps)"
proof (induction rest arbitrary: ps)
  case Nil
  then show ?case by simp
next
  case (Cons c rest)
  let ?ps' = "sample_loop hw x y c (pp ! c) ps"
  have c: "c < length pp" using Cons.prems by simp
  have ps': "?ps' = filter (\<lambda>v. \<not> (v = c \<and> near_corridor hw c (x, y, a, d))) ps"
    using Cons.prems
    by (auto simp: sample_loop_eq near_corridor_def setdiff1d_sorted_distinct intro: filter_cong)
  have "sorted ?ps'" "distinct ?ps'" unfolding ps' using Cons.prems by (simp_all add: sorted_wrt_filter)
  with Cons.IH[of ?ps'] Cons.prems
  have "path_loop hw x y rest ?ps' = Inr (filter (\<lambda>c. \<not> (c \<in> set rest \<and> near_corridor hw c (x, y, a, d))) ?ps')"
    by simp
  also have "filter (\<lambda>c. \<not> (c \<in> set rest \<and> near_corridor hw c (x, y, a, d))) ?ps' =
      filter (\<lambda>v. \<not> (v \<in> set (c # rest) \<and> near_corridor hw v (x, y, a, d))) ps"
    unfolding ps' by (auto intro: filter_cong)
  finally show ?case using c by (simp add: pp_at_def)
qed

lemma path_loop_set:
  "set rest \<subseteq> {..<length pp} \<Longrightarrow>
   \<exists>r. path_loop hw x y rest ps = Inr r \<and>
       set r = {c \<in> set ps. \<not> (c \<in> set rest \<and> near_corridor hw c (x, y, a, d))}"
proof (induction rest arbitrary: ps)
  case Nil
  then show ?case by simp
next
  case (Cons c rest)
  let ?ps' = "sample_loop hw x y c (pp ! c) ps"
  have c: "c < length pp" using Cons.prems by simp
  have ps': "set ?ps' = {v \<in> set ps. \<not> (v = c \<and> near_corridor hw c (x, y, a, d))}"
    by (auto simp: sample_loop_eq near_corridor_def set_setdiff1d)
  from Cons.IH[of ?ps'] Cons.prems obtain r where
    r: "path_loop hw x y rest ?ps' = Inr r"
       "set r = {c \<in> set ?ps'. \<not> (c \<in> set rest \<and> near_corridor hw c (x, y, a, d))}"
    by auto
  show ?case using c r ps' by (auto simp: pp_at_def)
qed

lemma check_path_collisions_set:
  "set ps \<subseteq> {..<length pp} \<Longrightarrow>
   \<exists>r. check_path_collisions hw array ps = Inr r \<and>
       set r = {c \<in> set ps. \<not> (\<exists>p\<in>set array. near_corridor hw c p)}"
proof (induction array arbitrary: ps)
  case Nil
  then show ?case by simp
next
  case (Cons p array)
  obtain x y a d where p: "p = (x, y, a, d)" by (cases p) auto
  from path_loop_set[OF Cons.prems, of hw x y ps a d] obtain r1 where
    r1: "path_loop hw x y ps ps = Inr r1"
        "set r1 = {c \<in> set ps. \<not> (c \<in> set ps \<and> near_corridor hw c (x, y, a, d))}"
    by blast
  then have "set r1 \<subseteq> {..<length pp}" using Cons.prems by auto
  from Cons.IH[OF this] obtain r where
    r: "check_path_collisions hw array r1 = Inr r"
       "set r = {c \<in> set r1. \<not> (\<exists>p\<in>set array. near_corridor hw c p)}"
    by blast
  show ?case using r r1 p by auto
qed

lemma check_path_collisions_sorted:
  "set ps \<subseteq> {..<length pp} \<Longrightarrow> sorted ps \<Longrightarrow> distinct ps \<Longrightarrow>
   check_path_collisions hw array ps =
     Inr (filter (\<lambda>c. \<not> (\<exists>p\<in>set array. near_corridor hw c p)) ps)"
proof (induction array arbitrary: ps)
  case Nil
  then show ?case by simp
next
  case (Cons p array)
  obtain x y a d where p: "p = (x, y, a, d)" by (cases p) auto
  let ?r1 = "filter (\<lambda>c. \<not> (c \<in> set ps \<and> near_corridor hw c (x, y, a, d))) ps"
  have r1: "path_loop hw x y ps ps = Inr ?r1"
    using path_loop_sorted[OF Cons.prems] .
  have "set ?r1 \<subseteq> {..<length pp}" "sorted ?r1" "distinct ?r1"
    using Cons.prems by (auto simp: sorted_wrt_filter)
  from Cons.IH[OF this]
  have "check_path_collisions hw array ?r1 =
     Inr (filter (\<lambda>c. \<not> (\<exists>p\<in>set array. near_corridor hw c p)) ?r1)" .
  also have "filter (\<lambda>c. \<not> (\<exists>p\<in>set array. near_corridor hw c p)) ?r1 =
     filter (\<lambda>c. \<not> (\<exists>q\<in>set (p # array). near_corridor hw c q)) ps"
    unfolding p by (auto intro: filter_cong)
  finally show ?case using r1 p by simp
qed

lemma categorize_loop_eq:
  "categorize_loop ps (lft, adv, rgt, ret) =
     (lft @ filter (\<lambda>p. p < 4) ps, adv @ filter (\<lambda>p. p = 4) ps,
      rgt @ filter (\<lambda>p. 4 < p \<and> p < 9) ps, ret @ filter (\<lambda>p. p = 9) ps)"
  by (induction ps arbitrary: lft adv rgt ret) auto

lemma categorize_paths_eq:
  "categorize_paths ps =
     (filter (\<lambda>p. p < 4) ps, filter (\<lambda>p. p = 4) ps,
      filter (\<lambda>p. 4 < p \<and> p < 9) ps, filter (\<lambda>p. p = 9) ps, ps)"
  by (simp add: categorize_paths_def categorize_loop_eq)

lemma process_eq:
  "process cfg data =
     Inr \<lparr>raw_scan = sort_key (\<lambda>(x, y, angle, d). angle) (transform_coordinates cfg data),
          lidar_string = movement_string cfg (survivors cfg (transform_coordinates cfg data)),
          valid_paths = survivors cfg (transform_coordinates cfg data)\<rparr>"
proof -
  let ?arr = "transform_coordinates cfg data"
  let ?s = "sort_key (\<lambda>(x, y, angle, d). angle) ?arr"
  let ?start = "if simple_paths cfg then [4] else [0, 1, 2, 3, 4, 5, 6, 7, 8, 9::nat]"
  have st: "set ?start \<subseteq> {..<length pp}" "sorted ?start" "distinct ?start"
    by (simp_all add: length_pp)
  have "check_path_collisions (half_width_robot cfg) ?s ?start =
      Inr (filter (\<lambda>c. \<not> (\<exists>p\<in>set ?s. near_corridor (half_width_robot cfg) c p)) ?start)"
    by (rule check_path_collisions_sorted[OF st])
  then have cpc: "check_path_collisions (half_width_robot cfg) ?s ?start = Inr (survivors cfg ?arr)"
    by (simp add: survivors_def)
  show ?thesis
  proof (cases "?arr = []")
    case True
    then show ?thesis
      by (simp add: process_def Let_def categorize_paths_eq movement_string_def survivors_def)
  next
    case False
    show ?thesis
    proof (cases "simple_paths cfg")
      case True
      with False cpc show ?thesis
        by (simp add: process_def Let_def categorize_paths_eq movement_string_def)
    next
      case nsp: False
      with False cpc show ?thesis
        by (simp add: process_def Let_def categorize_paths_eq movement_string_def)
    qed
  qed
qed

lemma transform_coordinates_append:
  "transform_coordinates cfg (xs @ ys) = transform_coordinates cfg xs @ transform_coordinates cfg ys"
  by (induction xs) (auto simp: Let_def)

lemma reflection_iff:
  "reflection bs angle \<longleftrightarrow> (\<exists>b\<in>set bs. fst b \<le> angle \<and> angle \<le> snd b)"
  by (induction bs) auto

lemma pp_eq:
  "pp =
 [[(0, 0), (- (37 / 540), 14 / 135), (- (19 / 135), 26 / 135),
   (- (13 / 60), 4 / 15), (- (8 / 27), 44 / 135), (- (41 / 108), 10 / 27),
   (- (7 / 15), 2 / 5), (- (301 / 540), 56 / 135), (- (88 / 135), 56 / 135),
   (- (3 / 4), 2 / 5)],
  [(0, 0), (- (11 / 162), 103 / 810), (- (56 / 405), 98 / 405),
   (- (19 / 90), 31 / 90), (- (116 / 405), 176 / 405),
   (- (59 / 162), 83 / 162), (- (4 / 9), 26 / 45),
   (- (427 / 810), 511 / 810), (- (248 / 405), 272 / 405),
   (- (7 / 10), 7 / 10)],
  [(0, 0), (- (19 / 405), 121 / 810), (- (8 / 81), 116 / 405),
   (- (7 / 45), 37 / 90), (- (88 / 405), 212 / 405),
   (- (23 / 81), 101 / 162), (- (16 / 45), 32 / 45),
   (- (35 / 81), 637 / 810), (- (208 / 405), 344 / 405),
   (- (3 / 5), 9 / 10)],
  [(0, 0), (- (13 / 540), 1223 / 8100), (- (7 / 135), 593 / 2025),
   (- (1 / 12), 383 / 900), (- (16 / 135), 1112 / 2025),
   (- (17 / 108), 215 / 324), (- (1 / 5), 173 / 225),
   (- (133 / 540), 7007 / 8100), (- (8 / 27), 1928 / 2025),
   (- (7 / 20), 103 / 100)],
  [(0, 0), (0, 181 / 1620), (0, 91 / 405), (0, 61 / 180), (0, 184 / 405),
   (0, 185 / 324), (0, 31 / 45), (0, 1309 / 1620), (0, 376 / 405),
   (0, 21 / 20)],
  [(0, 0), (13 / 540, 1223 / 8100), (7 / 135, 593 / 2025),
   (1 / 12, 383 / 900), (16 / 135, 1112 / 2025), (17 / 108, 215 / 324),
   (1 / 5, 173 / 225), (133 / 540, 7007 / 8100), (8 / 27, 1928 / 2025),
   (7 / 20, 103 / 100)],
  [(0, 0), (19 / 405, 121 / 810), (8 / 81, 116 / 405), (7 / 45, 37 / 90),
   (88 / 405, 212 / 405), (23 / 81, 101 / 162), (16 / 45, 32 / 45),
   (35 / 81, 637 / 810), (208 / 405, 344 / 405), (3 / 5, 9 / 10)],
  [(0, 0), (11 / 162, 103 / 810), (56 / 405, 98 / 405), (19 / 90, 31 / 90),
   (116 / 405, 176 / 405), (59 / 162, 83 / 162), (4 / 9, 26 / 45),
   (427 / 810, 511 / 810), (248 / 405, 272 / 405), (7 / 10, 7 / 10)],
  [(0, 0), (37 / 540, 14 / 135), (19 / 135, 26 / 135), (13 / 60, 4 / 15),
   (8 / 27, 44 / 135), (41 / 108, 10 / 27), (7 / 15, 2 / 5),
   (301 / 540, 56 / 135), (88 / 135, 56 / 135), (3 / 4, 2 / 5)],
  [(0, 0), (0, - (181 / 1620)), (0, - (91 / 405)), (0, - (61 / 180)),
   (0, - (184 / 405)), (0, - (185 / 324)), (0, - (31 / 45)),
   (0, - (1309 / 1620)), (0, - (376 / 405)), (0, - (21 / 20))]]"
  by (simp add: pp_def curves_def s_vals_eq evaluate_multi_def)

lemma near_behind:
  "map (\<lambda>c. near_corridor (1/5) c (0, - (1/2), - 180, 1/2)) [0, 1, 2, 3, 4, 5, 6, 7, 8, 9]
     = [False, False, False, False, False, False, False, False, False, True]"
  by (simp only: near_corridor_def sample_dist_less) (simp add: pp_eq)

lemma near_ahead:
  "map (\<lambda>c. near_corridor (1/5) c (0, 1/2, 0, 1/2)) [0, 1, 2, 3, 4, 5, 6, 7, 8, 9]
     = [False, False, True, True, True, True, True, False, False, False]"
  by (simp only: near_corridor_def sample_dist_less) (simp add: pp_eq)

lemma length_curves: "length curves = 10"
  by (simp add: curves_def)

lemma pp_samples: "c < 10 \<Longrightarrow> length (pp ! c) = 10"
  by (simp add: pp_def length_curves evaluate_multi_def s_vals_eq)

lemma pp_first: "c < 10 \<Longrightarrow> pp ! c ! 0 = (0, 0)"
proof -
  have "list_all (\<lambda>l. l ! 0 = (0, 0)) pp" by (simp add: pp_eq)
  then show "c < 10 \<Longrightarrow> pp ! c ! 0 = (0, 0)"
    by (simp add: list_all_length length_pp)
qed


lemma transform_coordinates_Cons:
  "transform_coordinates cfg (r # data) =
     transform_coordinates cfg [r] @ transform_coordinates cfg data"
  using transform_coordinates_append[of cfg "[r]" data] by simp

lemma set_transform_coordinates:
  "set (transform_coordinates cfg data) = (\<Union>r\<in>set data. set (transform_coordinates cfg [r]))"
proof (induction data)
  case Nil
  show ?case by simp
next
  case (Cons r data)
  have "set (transform_coordinates cfg (r # data)) =
      set (transform_coordinates cfg [r]) \<union> set (transform_coordinates cfg data)"
    by (subst transform_coordinates_Cons) simp
  with Cons.IH show ?case by simp
qed

lemma transform_discarded:
  assumes "snd r > max_relevant_distance cfg \<or>
     (\<exists>b\<in>set (angles_blanked cfg). fst b \<le> robot_angle cfg (fst r) \<and> robot_angle cfg (fst r) \<le> snd b)"
  shows "transform_coordinates cfg [r] = []"
  using assms by (cases r) (auto simp: Let_def reflection_iff)

lemma survivors_cong:
  "set array = set array' \<Longrightarrow> survivors cfg array = survivors cfg array'"
  by (simp add: survivors_def)

lemma survivors_subset:
  "set (survivors cfg array) \<subseteq> set (if simple_paths cfg then [4] else [0, 1, 2, 3, 4, 5, 6, 7, 8, 9])"
  by (simp add: survivors_def)

lemma start_in_range:
  "set (if simple_paths cfg then [4] else [0, 1, 2, 3, 4, 5, 6, 7, 8, 9]) \<subseteq> {..<length pp}"
  by (simp add: length_pp)

lemma movement_string_Nil: "movement_string cfg [] = surrounded_message"
  by (simp add: movement_string_def generate_movement_string_def)

lemma surrounded_message_neq:
  "ps \<noteq> [] \<Longrightarrow> movement_string cfg ps \<noteq> surrounded_message"
  by (auto simp: movement_string_def generate_movement_string_def surrounded_message_def Let_def)

lemma movement_string_prefix:
  "ps \<noteq> [] \<Longrightarrow> prefix ''The safe movement directions are: {'' (movement_string cfg ps)"
  by (auto simp: movement_string_def generate_movement_string_def Let_def)

lemma movement_string_zenoh:
  "use_zenoh cfg \<Longrightarrow> ps \<noteq> [] \<Longrightarrow>
   movement_string cfg ps =
     ''The safe movement directions are: {'turn left', 'turn right', '' @
     (if 4 \<in> set ps then '''move forwards', '' else []) @ '''stand still'}. ''"
  by (auto simp: movement_string_def generate_movement_string_def Let_def filter_empty_conv)

lemma prefix_candidates:
  "\<exists>R. check_path_collisions (half_width_robot cfg) (take n array)
          (if simple_paths cfg then [4] else [0, 1, 2, 3, 4, 5, 6, 7, 8, 9]) = Inr R \<and>
       set R = {c \<in> set (if simple_paths cfg then [4] else [0, 1, 2, 3, 4, 5, 6, 7, 8, 9]).
                 \<not> (\<exists>p\<in>set (take n array). near_corridor (half_width_robot cfg) c p)}"
  by (rule check_path_collisions_set[OF start_in_range])

lemma loop_on_raw_scan:
  "check_path_collisions (half_width_robot cfg)
      (sort_key (\<lambda>(x, y, angle, d). angle) array)
      (if simple_paths cfg then [4] else [0, 1, 2, 3, 4, 5, 6, 7, 8, 9]) =
   Inr (survivors cfg array)"
proof -
  let ?start = "if simple_paths cfg then [4] else [0, 1, 2, 3, 4, 5, 6, 7, 8, 9::nat]"
  have st: "sorted ?start" "distinct ?start" by simp_all
  show ?thesis
    unfolding check_path_collisions_sorted[OF start_in_range st]
    by (simp add: survivors_def)
qed

section \<open>Evaluation at concrete readings\<close>

lemma transform_behind:
  "transform_coordinates default_config [(180, 1/2)] = [(0, - (1/2), - 180, 1/2)]"
  by (simp add: default_config_def robot_angle_def Let_def)

lemma transform_ahead:
  "transform_coordinates default_config [(0, 1/2)] = [(0, 1/2, 0, 1/2)]"
  by (simp add: default_config_def robot_angle_def Let_def)

lemma survivors_behind:
  "survivors default_config [(0, - (1/2), - 180, 1/2)] = [0, 1, 2, 3, 4, 5, 6, 7, 8]"
  using near_behind by (simp add: survivors_def default_config_def)

lemma survivors_ahead:
  "survivors default_config [(0, 1/2, 0, 1/2)] = [0, 1, 7, 8, 9]"
  using near_ahead by (simp add: survivors_def default_config_def)

lemma scenario_behind:
  "process default_config [(180, 1/2)] =
     Inr \<lparr>raw_scan = [(0, - (1/2), - 180, 1/2)],
          lidar_string = ''The safe movement directions are: {'turn left', 'move forwards', 'turn right', 'stand still'}. '',
          valid_paths = [0, 1, 2, 3, 4, 5, 6, 7, 8]\<rparr>"
  unfolding process_eq transform_behind survivors_behind
  by (simp add: movement_string_def generate_movement_string_def default_config_def)

lemma scenario_ahead:
  "process default_config [(0, 1/2)] =
     Inr \<lparr>raw_scan = [(0, 1/2, 0, 1/2)],
          lidar_string = ''The safe movement directions are: {'turn left', 'turn right', 'move back', 'stand still'}. '',
          valid_paths = [0, 1, 7, 8, 9]\<rparr>"
  unfolding process_eq transform_ahead survivors_ahead
  by (simp add: movement_string_def generate_movement_string_def default_config_def)

lemma process_empty_default:
  "process default_config [] =
     Inr \<lparr>raw_scan = [],
          lidar_string = ''The safe movement directions are: {'turn left', 'move forwards', 'turn right', 'move back', 'stand still'}. '',
          valid_paths = [0, 1, 2, 3, 4, 5, 6, 7, 8, 9]\<rparr>"
  unfolding process_eq
  by (simp add: survivors_def movement_string_def generate_movement_string_def default_config_def)

lemma process_empty_simple:
  "process (default_config\<lparr>simple_paths := True\<rparr>) [] =
     Inr \<lparr>raw_scan = [],
          lidar_string = ''The safe movement directions are: {'move forwards', 'stand still'}. '',
          valid_paths = [4]\<rparr>"
  unfolding process_eq
  by (simp add: survivors_def movement_string_def generate_movement_string_def default_config_def)

lemma no_turn_left:
  "\<not> sublist ''turn left''
     ''The safe movement directions are: {'move forwards', 'stand still'}. ''"
  by code_simp

lemma lists_forwards:
  "sublist ''move forwards''
     ''The safe movement directions are: {'turn left', 'move forwards', 'turn right', 'stand still'}. ''"
  by code_simp

lemma no_move_back:
  "\<not> sublist ''move back''
     ''The safe movement directions are: {'turn left', 'move forwards', 'turn right', 'stand still'}. ''"
  by code_simp

lemma no_forwards:
  "\<not> sublist ''move forwards''
     ''The safe movement directions are: {'turn left', 'turn right', 'move back', 'stand still'}. ''"
  by code_simp

lemma near_origin:
  "c < 10 \<Longrightarrow> sample_dist (fst p) (fst (snd p)) (0, 0) < hw \<Longrightarrow> near_corridor hw c p"
proof -
  assume c: "c < 10" and d: "sample_dist (fst p) (fst (snd p)) (0, 0) < hw"
  have "pp ! c ! 0 \<in> set (pp ! c)" using pp_samples[OF c] by (intro nth_mem) simp
  then have "(0, 0) \<in> set (pp ! c)" using pp_first[OF c] by simp
  with d show ?thesis unfolding near_corridor_def by blast
qed

lemma transform_close:
  "transform_coordinates default_config [(0, 1/10)] = [(0, 1/10, 0, 1/10)]"
  by (simp add: default_config_def robot_angle_def Let_def)

lemma survivors_close: "survivors default_config [(0, 1/10, 0, 1/10)] = []"
proof -
  have d: "sample_dist (fst (0, 1/10, 0, 1/10::real)) (fst (snd (0::real, 1/10, 0::real, 1/10::real))) (0, 0) < 1/5"
    by (simp only: sample_dist_less) simp
  have "near_corridor (1/5) c (0, 1/10, 0, 1/10)" if "c < 10" for c
    using near_origin[OF that d] .
  then show ?thesis by (simp add: survivors_def default_config_def)
qed

lemma process_close:
  "process default_config [(0, 1/10)] =
     Inr \<lparr>raw_scan = [(0, 1/10, 0, 1/10)],
          lidar_string = ''You are surrounded by objects and cannot safely move in any direction. DO NOT MOVE.'',
          valid_paths = []\<rparr>"
  unfolding process_eq transform_close survivors_close
  by (simp add: movement_string_Nil surrounded_message_def)

section \<open>The claims\<close>



text \<open>
  C2. Every cycle publishes a \<open>valid_paths\<close> list whose ids lie in 0..9, and in
  \<open>{4}\<close> when \<open>simple_paths\<close> is set. The published list is what the pruning
  loop leaves after the whole sorted array, and the candidates only shrink while
  the loop runs: the candidates left after the first \<open>m\<close> rows are among those
  left after the first \<open>n \<le> m\<close> rows, which are among the starting ones.
\<close>

theorem valid_paths_bounds:
  "\<exists>s. process cfg data = Inr s \<and>
       set (valid_paths s) \<subseteq> {0..9} \<and>
       (simple_paths cfg \<longrightarrow> set (valid_paths s) \<subseteq> {4}) \<and>
       check_path_collisions (half_width_robot cfg) (raw_scan s)
         (if simple_paths cfg then [4] else [0, 1, 2, 3, 4, 5, 6, 7, 8, 9]) = Inr (valid_paths s) \<and>
       (\<forall>n m. n \<le> m \<longrightarrow>
          (\<exists>R1 R2.
             check_path_collisions (half_width_robot cfg) (take n (raw_scan s))
               (if simple_paths cfg then [4] else [0, 1, 2, 3, 4, 5, 6, 7, 8, 9]) = Inr R1 \<and>
             check_path_collisions (half_width_robot cfg) (take m (raw_scan s))
               (if simple_paths cfg then [4] else [0, 1, 2, 3, 4, 5, 6, 7, 8, 9]) = Inr R2 \<and>
             set R2 \<subseteq> set R1 \<and>
             set R1 \<subseteq> set (if simple_paths cfg then [4] else [0, 1, 2, 3, 4, 5, 6, 7, 8, 9])))"
proof -
  let ?arr = "transform_coordinates cfg data"
  let ?sorted = "sort_key (\<lambda>(x, y, angle, d). angle) ?arr"
  let ?start = "if simple_paths cfg then [4] else [0, 1, 2, 3, 4, 5, 6, 7, 8, 9::nat]"
  let ?s = "\<lparr>raw_scan = ?sorted, lidar_string = movement_string cfg (survivors cfg ?arr),
             valid_paths = survivors cfg ?arr\<rparr>"
  have p: "process cfg data = Inr ?s" by (rule process_eq)
  have b1: "set (valid_paths ?s) \<subseteq> {0..9}"
    using survivors_subset[of cfg ?arr] by (auto split: if_splits)
  have b2: "simple_paths cfg \<longrightarrow> set (valid_paths ?s) \<subseteq> {4}"
    using survivors_subset[of cfg ?arr] by (auto split: if_splits)
  have b3: "check_path_collisions (half_width_robot cfg) (raw_scan ?s) ?start = Inr (valid_paths ?s)"
    using loop_on_raw_scan[of cfg ?arr] by simp
  have b4: "\<exists>R1 R2.
             check_path_collisions (half_width_robot cfg) (take n (raw_scan ?s)) ?start = Inr R1 \<and>
             check_path_collisions (half_width_robot cfg) (take m (raw_scan ?s)) ?start = Inr R2 \<and>
             set R2 \<subseteq> set R1 \<and> set R1 \<subseteq> set ?start" if nm: "n \<le> m" for n m
  proof -
    from prefix_candidates[of cfg n "raw_scan ?s"] obtain R1 where
      R1: "check_path_collisions (half_width_robot cfg) (take n (raw_scan ?s)) ?start = Inr R1"
          "set R1 = {c \<in> set ?start.
                 \<not> (\<exists>p\<in>set (take n (raw_scan ?s)). near_corridor (half_width_robot cfg) c p)}"
      by blast
    from prefix_candidates[of cfg m "raw_scan ?s"] obtain R2 where
      R2: "check_path_collisions (half_width_robot cfg) (take m (raw_scan ?s)) ?start = Inr R2"
          "set R2 = {c \<in> set ?start.
                 \<not> (\<exists>p\<in>set (take m (raw_scan ?s)). near_corridor (half_width_robot cfg) c p)}"
      by blast
    have "set (take n (raw_scan ?s)) \<subseteq> set (take m (raw_scan ?s))"
      using nm by (rule set_take_subset_set_take)
    then have "set R2 \<subseteq> set R1" unfolding R1(2) R2(2) by blast
    moreover have "set R1 \<subseteq> set ?start" unfolding R1(2) by blast
    ultimately show ?thesis using R1(1) R2(1) by blast
  qed
  from p b1 b2 b3 b4 show ?thesis by blast
qed

theorem valid_paths_bounds_witness:
  "simple_paths (default_config\<lparr>simple_paths := True\<rparr>) \<and> (0::nat) \<le> 1 \<and>
   (\<exists>s. process (default_config\<lparr>simple_paths := True\<rparr>) [(0, 1/2)] = Inr s \<and>
        set (valid_paths s) \<subseteq> {4} \<and>
        (\<exists>R1 R2.
           check_path_collisions (1/5) (take 0 (raw_scan s)) [4] = Inr R1 \<and>
           check_path_collisions (1/5) (take 1 (raw_scan s)) [4] = Inr R2 \<and>
           set R2 \<subseteq> set R1))"
proof -
  let ?cfg = "default_config\<lparr>simple_paths := True\<rparr>"
  have sp: "simple_paths ?cfg" by simp
  have hw: "half_width_robot ?cfg = 1/5" by (simp add: default_config_def)
  from valid_paths_bounds[of ?cfg "[(0, 1/2)]"] obtain s where
    s: "process ?cfg [(0, 1/2)] = Inr s"
    and four: "simple_paths ?cfg \<longrightarrow> set (valid_paths s) \<subseteq> {4}"
    and mono: "\<forall>n m. n \<le> m \<longrightarrow>
          (\<exists>R1 R2.
             check_path_collisions (half_width_robot ?cfg) (take n (raw_scan s))
               (if simple_paths ?cfg then [4] else [0, 1, 2, 3, 4, 5, 6, 7, 8, 9]) = Inr R1 \<and>
             check_path_collisions (half_width_robot ?cfg) (take m (raw_scan s))
               (if simple_paths ?cfg then [4] else [0, 1, 2, 3, 4, 5, 6, 7, 8, 9]) = Inr R2 \<and>
             set R2 \<subseteq> set R1 \<and>
             set R1 \<subseteq> set (if simple_paths ?cfg then [4] else [0, 1, 2, 3, 4, 5, 6, 7, 8, 9]))"
    by blast
  from mono have "(0::nat) \<le> 1 \<longrightarrow>
          (\<exists>R1 R2.
             check_path_collisions (half_width_robot ?cfg) (take 0 (raw_scan s))
               (if simple_paths ?cfg then [4] else [0, 1, 2, 3, 4, 5, 6, 7, 8, 9]) = Inr R1 \<and>
             check_path_collisions (half_width_robot ?cfg) (take 1 (raw_scan s))
               (if simple_paths ?cfg then [4] else [0, 1, 2, 3, 4, 5, 6, 7, 8, 9]) = Inr R2 \<and>
             set R2 \<subseteq> set R1 \<and>
             set R1 \<subseteq> set (if simple_paths ?cfg then [4] else [0, 1, 2, 3, 4, 5, 6, 7, 8, 9]))"
    by blast
  then have "\<exists>R1 R2.
             check_path_collisions (half_width_robot ?cfg) (take 0 (raw_scan s))
               (if simple_paths ?cfg then [4] else [0, 1, 2, 3, 4, 5, 6, 7, 8, 9]) = Inr R1 \<and>
             check_path_collisions (half_width_robot ?cfg) (take 1 (raw_scan s))
               (if simple_paths ?cfg then [4] else [0, 1, 2, 3, 4, 5, 6, 7, 8, 9]) = Inr R2 \<and>
             set R2 \<subseteq> set R1"
    by blast
  then have m: "\<exists>R1 R2.
           check_path_collisions (1/5) (take 0 (raw_scan s)) [4] = Inr R1 \<and>
           check_path_collisions (1/5) (take 1 (raw_scan s)) [4] = Inr R2 \<and>
           set R2 \<subseteq> set R1"
    by (simp only: hw sp if_True)
  from four sp have "set (valid_paths s) \<subseteq> {4}" by blast
  with s m have "\<exists>s. process ?cfg [(0, 1/2)] = Inr s \<and>
        set (valid_paths s) \<subseteq> {4} \<and>
        (\<exists>R1 R2.
           check_path_collisions (1/5) (take 0 (raw_scan s)) [4] = Inr R1 \<and>
           check_path_collisions (1/5) (take 1 (raw_scan s)) [4] = Inr R2 \<and>
           set R2 \<subseteq> set R1)"
    by blast
  with sp show ?thesis by simp
qed

text \<open>
  C4. On an empty array the pruning loop returns its starting list unchanged, and
  a cycle whose transformed array is empty publishes the full list 0..9, or
  \<open>[4]\<close> when \<open>simple_paths\<close> is set.
\<close>

theorem empty_points_unchanged:
  "check_path_collisions hw [] S = Inr S \<and>
   (transform_coordinates cfg data = [] \<longrightarrow>
      (\<exists>s. process cfg data = Inr s \<and> raw_scan s = [] \<and>
           valid_paths s = (if simple_paths cfg then [4] else [0, 1, 2, 3, 4, 5, 6, 7, 8, 9])))"
  by (simp add: process_eq survivors_def)

theorem empty_points_unchanged_witness:
  "transform_coordinates default_config [(90, 2)] = [] \<and>
   (\<exists>s. process default_config [(90, 2)] = Inr s \<and> raw_scan s = [] \<and>
        valid_paths s = [0, 1, 2, 3, 4, 5, 6, 7, 8, 9])"
proof -
  have h: "transform_coordinates default_config [(90, 2)] = []"
    by (simp add: default_config_def)
  have ns: "\<not> simple_paths default_config" by (simp add: default_config_def)
  from empty_points_unchanged[of "1/5" "[]" default_config "[(90, 2)]"] h ns
  show ?thesis by simp
qed

text \<open>
  C7. Two arrays of transformed points that are permutations of each other give
  the same pruning result, and two batches of readings that are permutations of
  each other give the same \<open>valid_paths\<close> and the same \<open>lidar_string\<close>.
\<close>

theorem order_independence:
  "(mset array = mset array' \<longrightarrow>
      (\<exists>R. check_path_collisions (half_width_robot cfg) array
              (if simple_paths cfg then [4] else [0, 1, 2, 3, 4, 5, 6, 7, 8, 9]) = Inr R \<and>
           check_path_collisions (half_width_robot cfg) array'
              (if simple_paths cfg then [4] else [0, 1, 2, 3, 4, 5, 6, 7, 8, 9]) = Inr R)) \<and>
   (mset data = mset data' \<longrightarrow>
      (\<exists>s s'. process cfg data = Inr s \<and> process cfg data' = Inr s' \<and>
          valid_paths s = valid_paths s' \<and> lidar_string s = lidar_string s'))"
proof (intro conjI impI)
  let ?start = "if simple_paths cfg then [4] else [0, 1, 2, 3, 4, 5, 6, 7, 8, 9::nat]"
  assume "mset array = mset array'"
  then have eq: "set array = set array'" by (rule mset_eq_setD)
  have st: "sorted ?start" "distinct ?start" by simp_all
  show "\<exists>R. check_path_collisions (half_width_robot cfg) array ?start = Inr R \<and>
           check_path_collisions (half_width_robot cfg) array' ?start = Inr R"
    unfolding check_path_collisions_sorted[OF start_in_range st] eq by simp
next
  assume "mset data = mset data'"
  then have "set data = set data'" by (rule mset_eq_setD)
  then have "set (transform_coordinates cfg data) = set (transform_coordinates cfg data')"
    unfolding set_transform_coordinates[of cfg data] set_transform_coordinates[of cfg data']
    by (rule arg_cong)
  then have "survivors cfg (transform_coordinates cfg data) =
      survivors cfg (transform_coordinates cfg data')"
    by (rule survivors_cong)
  then show "\<exists>s s'. process cfg data = Inr s \<and> process cfg data' = Inr s' \<and>
          valid_paths s = valid_paths s' \<and> lidar_string s = lidar_string s'"
    by (simp add: process_eq)
qed

theorem order_independence_witness:
  "mset [(0, 1/2, 0, 1/2), (0, - (1/2), - 180, 1/2)] =
     mset [(0, - (1/2), - 180, 1/2), (0, 1/2, 0, 1/2::real)] \<and>
   mset [(0, 1/2), (180, 1/2)] = mset [(180, 1/2), (0, 1/2::real)] \<and>
   (\<exists>R. check_path_collisions (1/5) [(0, 1/2, 0, 1/2), (0, - (1/2), - 180, 1/2)]
           [0, 1, 2, 3, 4, 5, 6, 7, 8, 9] = Inr R \<and>
        check_path_collisions (1/5) [(0, - (1/2), - 180, 1/2), (0, 1/2, 0, 1/2)]
           [0, 1, 2, 3, 4, 5, 6, 7, 8, 9] = Inr R) \<and>
   (\<exists>s s'. process default_config [(0, 1/2), (180, 1/2)] = Inr s \<and>
      process default_config [(180, 1/2), (0, 1/2)] = Inr s' \<and>
      valid_paths s = valid_paths s' \<and> lidar_string s = lidar_string s')"
proof -
  have h1: "mset [(0, 1/2, 0, 1/2), (0, - (1/2), - 180, 1/2)] =
     mset [(0, - (1/2), - 180, 1/2), (0, 1/2, 0, 1/2::real)]" by simp
  have h2: "mset [(0, 1/2), (180, 1/2)] = mset [(180, 1/2), (0, 1/2::real)]" by simp
  have c: "half_width_robot default_config = 1/5" "\<not> simple_paths default_config"
    by (simp_all add: default_config_def)
  note t = order_independence[of "[(0, 1/2, 0, 1/2), (0, - (1/2), - 180, 1/2)]"
      "[(0, - (1/2), - 180, 1/2), (0, 1/2, 0, 1/2)]" default_config
      "[(0, 1/2), (180, 1/2)]" "[(180, 1/2), (0, 1/2)]"]
  from t h1 have "\<exists>R. check_path_collisions (half_width_robot default_config)
           [(0, 1/2, 0, 1/2), (0, - (1/2), - 180, 1/2)]
           (if simple_paths default_config then [4] else [0, 1, 2, 3, 4, 5, 6, 7, 8, 9]) = Inr R \<and>
        check_path_collisions (half_width_robot default_config)
           [(0, - (1/2), - 180, 1/2), (0, 1/2, 0, 1/2)]
           (if simple_paths default_config then [4] else [0, 1, 2, 3, 4, 5, 6, 7, 8, 9]) = Inr R"
    by blast
  then have a: "\<exists>R. check_path_collisions (1/5) [(0, 1/2, 0, 1/2), (0, - (1/2), - 180, 1/2)]
           [0, 1, 2, 3, 4, 5, 6, 7, 8, 9] = Inr R \<and>
        check_path_collisions (1/5) [(0, - (1/2), - 180, 1/2), (0, 1/2, 0, 1/2)]
           [0, 1, 2, 3, 4, 5, 6, 7, 8, 9] = Inr R"
    by (simp only: c if_False)
  from t h2 have b: "\<exists>s s'. process default_config [(0, 1/2), (180, 1/2)] = Inr s \<and>
      process default_config [(180, 1/2), (0, 1/2)] = Inr s' \<and>
      valid_paths s = valid_paths s' \<and> lidar_string s = lidar_string s'"
    by blast
  show ?thesis by (intro conjI h1 h2 a b)
qed

text \<open>
  C8. A reading that the transformation discards, because its distance exceeds
  \<open>max_relevant_distance\<close> or because its robot-frame angle lies in a blanked
  range (both ends included), can be inserted anywhere in a batch without
  changing what the cycle publishes.
\<close>

theorem discarded_reading_no_influence:
  assumes "snd r > max_relevant_distance cfg \<or>
     (\<exists>b\<in>set (angles_blanked cfg).
         fst b \<le> robot_angle cfg (fst r) \<and> robot_angle cfg (fst r) \<le> snd b)"
  shows "process cfg (xs @ r # ys) = process cfg (xs @ ys) \<and>
         (\<exists>s. process cfg (xs @ ys) = Inr s)"
proof -
  have "transform_coordinates cfg (xs @ r # ys) =
      transform_coordinates cfg xs @ transform_coordinates cfg [r] @ transform_coordinates cfg ys"
    using transform_coordinates_append[of cfg xs "r # ys"] transform_coordinates_Cons[of cfg r ys]
    by simp
  also have "\<dots> = transform_coordinates cfg (xs @ ys)"
    using transform_discarded[OF assms] by (simp add: transform_coordinates_append)
  finally have "transform_coordinates cfg (xs @ r # ys) = transform_coordinates cfg (xs @ ys)" .
  then show ?thesis by (simp add: process_eq)
qed

theorem discarded_reading_no_influence_witness:
  "(2 > max_relevant_distance default_config \<and>
    process default_config ([(0, 1/2)] @ (0, 2) # []) = process default_config ([(0, 1/2)] @ [])) \<and>
   (fst (- 10, 10::real) \<le> robot_angle (default_config\<lparr>angles_blanked := [(- 10, 10)]\<rparr>) 10 \<and>
    robot_angle (default_config\<lparr>angles_blanked := [(- 10, 10)]\<rparr>) 10 \<le> snd (- 10, 10::real) \<and>
    robot_angle (default_config\<lparr>angles_blanked := [(- 10, 10)]\<rparr>) 10 = 10 \<and>
    process (default_config\<lparr>angles_blanked := [(- 10, 10)]\<rparr>) ([] @ (10, 1/2) # [(180, 1/2)]) =
      process (default_config\<lparr>angles_blanked := [(- 10, 10)]\<rparr>) ([] @ [(180, 1/2)])) \<and>
   (robot_angle (default_config\<lparr>angles_blanked := [(- 10, 10)]\<rparr>) 350 = - 10 \<and>
    process (default_config\<lparr>angles_blanked := [(- 10, 10)]\<rparr>) ([] @ (350, 1/2) # [(180, 1/2)]) =
      process (default_config\<lparr>angles_blanked := [(- 10, 10)]\<rparr>) ([] @ [(180, 1/2)]))"
proof -
  let ?cfg = "default_config\<lparr>angles_blanked := [(- 10, 10)]\<rparr>"
  have far: "2 > max_relevant_distance default_config" by (simp add: default_config_def)
  have a10: "robot_angle ?cfg 10 = 10" by (simp add: robot_angle_def default_config_def)
  have a350: "robot_angle ?cfg 350 = - 10" by (simp add: robot_angle_def default_config_def)
  have bl: "angles_blanked ?cfg = [(- 10, 10)]" by simp
  have h1: "snd (0, 2::real) > max_relevant_distance default_config \<or>
     (\<exists>b\<in>set (angles_blanked default_config).
         fst b \<le> robot_angle default_config (fst (0::real, 2::real)) \<and>
         robot_angle default_config (fst (0::real, 2::real)) \<le> snd b)"
    using far by simp
  have h2: "snd (10, 1/2::real) > max_relevant_distance ?cfg \<or>
     (\<exists>b\<in>set (angles_blanked ?cfg).
         fst b \<le> robot_angle ?cfg (fst (10::real, 1/2::real)) \<and>
         robot_angle ?cfg (fst (10::real, 1/2::real)) \<le> snd b)"
    by (simp only: bl fst_conv a10) simp
  have h3: "snd (350, 1/2::real) > max_relevant_distance ?cfg \<or>
     (\<exists>b\<in>set (angles_blanked ?cfg).
         fst b \<le> robot_angle ?cfg (fst (350::real, 1/2::real)) \<and>
         robot_angle ?cfg (fst (350::real, 1/2::real)) \<le> snd b)"
    by (simp only: bl fst_conv a350) simp
  have e1: "fst (- 10, 10::real) \<le> robot_angle ?cfg 10" "robot_angle ?cfg 10 \<le> snd (- 10, 10::real)"
    by (simp_all only: a10) simp_all
  from discarded_reading_no_influence[OF h1, of "[(0, 1/2)]" "[]"]
  have c1: "process default_config ([(0, 1/2)] @ (0, 2) # []) = process default_config ([(0, 1/2)] @ [])"
    by (rule conjunct1)
  from discarded_reading_no_influence[OF h2, of "[]" "[(180, 1/2)]"]
  have c2: "process ?cfg ([] @ (10, 1/2) # [(180, 1/2)]) = process ?cfg ([] @ [(180, 1/2)])"
    by (rule conjunct1)
  from discarded_reading_no_influence[OF h3, of "[]" "[(180, 1/2)]"]
  have c3: "process ?cfg ([] @ (350, 1/2) # [(180, 1/2)]) = process ?cfg ([] @ [(180, 1/2)])"
    by (rule conjunct1)
  show ?thesis by (intro conjI far c1 c2 c3 a10 a350 e1)
qed



text \<open>
  C3, as stated, fails: with the default configuration a cycle on an empty batch
  publishes an empty \<open>raw_scan\<close> together with all ten corridors and the list
  of safe movements, not the surrounded message.
\<close>

theorem empty_batch_counterexample:
  "process default_config [] =
     Inr \<lparr>raw_scan = [],
          lidar_string = ''The safe movement directions are: {'turn left', 'move forwards', 'turn right', 'move back', 'stand still'}. '',
          valid_paths = [0, 1, 2, 3, 4, 5, 6, 7, 8, 9]\<rparr> \<and>
   [0, 1, 2, 3, 4, 5, 6, 7, 8, 9] \<noteq> ([]::nat list) \<and>
   ''The safe movement directions are: {'turn left', 'move forwards', 'turn right', 'move back', 'stand still'}. ''
     \<noteq> surrounded_message"
  using process_empty_default by (simp add: surrounded_message_def)

text \<open>
  C3, amended. While no scan message has arrived, \<^verbatim>\<open>_preprocess_zenoh\<close>
  publishes an empty \<open>raw_scan\<close>, an empty \<open>valid_paths\<close> and the text
  "You might be surrounded by objects ...". A cycle of \<^verbatim>\<open>_process\<close> whose
  transformed array is empty publishes an empty \<open>raw_scan\<close>, the unpruned
  starting list and a string that starts with "The safe movement directions are"
  and is not the surrounded message. In every cycle of \<^verbatim>\<open>_process\<close> the
  surrounded message is published exactly when \<open>valid_paths\<close> is empty.
\<close>

theorem empty_batch_snapshot:
  "preprocess_zenoh cfg angles_final None =
     Inr \<lparr>raw_scan = [],
          lidar_string = ''You might be surrounded by objects and cannot safely move in any direction. DO NOT MOVE.'',
          valid_paths = []\<rparr> \<and>
   (transform_coordinates cfg data = [] \<longrightarrow>
      (\<exists>s. process cfg data = Inr s \<and> raw_scan s = [] \<and>
           valid_paths s = (if simple_paths cfg then [4] else [0, 1, 2, 3, 4, 5, 6, 7, 8, 9]) \<and>
           prefix ''The safe movement directions are: {'' (lidar_string s) \<and>
           lidar_string s \<noteq> surrounded_message)) \<and>
   (\<exists>s. process cfg data = Inr s \<and>
        (lidar_string s = surrounded_message \<longleftrightarrow> valid_paths s = []))"
proof (intro conjI impI)
  show "preprocess_zenoh cfg angles_final None =
     Inr \<lparr>raw_scan = [],
          lidar_string = ''You might be surrounded by objects and cannot safely move in any direction. DO NOT MOVE.'',
          valid_paths = []\<rparr>"
    by (simp add: preprocess_zenoh_def)
next
  let ?start = "if simple_paths cfg then [4] else [0, 1, 2, 3, 4, 5, 6, 7, 8, 9::nat]"
  assume e: "transform_coordinates cfg data = []"
  have sv: "survivors cfg [] = ?start" by (simp add: survivors_def)
  have ne: "?start \<noteq> []" by simp
  show "\<exists>s. process cfg data = Inr s \<and> raw_scan s = [] \<and>
           valid_paths s = ?start \<and>
           prefix ''The safe movement directions are: {'' (lidar_string s) \<and>
           lidar_string s \<noteq> surrounded_message"
    unfolding process_eq e sv
    using movement_string_prefix[OF ne, of cfg] surrounded_message_neq[OF ne, of cfg]
    by simp
next
  show "\<exists>s. process cfg data = Inr s \<and>
        (lidar_string s = surrounded_message \<longleftrightarrow> valid_paths s = [])"
    unfolding process_eq
    using movement_string_Nil[of cfg] surrounded_message_neq[of _ cfg]
    by auto
qed

theorem empty_batch_snapshot_witness:
  "transform_coordinates default_config [] = [] \<and>
   (\<exists>s. process default_config [] = Inr s \<and> raw_scan s = [] \<and>
        valid_paths s = [0, 1, 2, 3, 4, 5, 6, 7, 8, 9] \<and>
        lidar_string s \<noteq> surrounded_message)"
proof -
  have h: "transform_coordinates default_config [] = []" by simp
  have ns: "\<not> simple_paths default_config" by (simp add: default_config_def)
  from empty_batch_snapshot[of default_config "[]" "[]"] h
  have "\<exists>s. process default_config [] = Inr s \<and> raw_scan s = [] \<and>
           valid_paths s = (if simple_paths default_config then [4] else [0, 1, 2, 3, 4, 5, 6, 7, 8, 9]) \<and>
           prefix ''The safe movement directions are: {'' (lidar_string s) \<and>
           lidar_string s \<noteq> surrounded_message"
    by blast
  then have "\<exists>s. process default_config [] = Inr s \<and> raw_scan s = [] \<and>
           valid_paths s = [0, 1, 2, 3, 4, 5, 6, 7, 8, 9] \<and>
           lidar_string s \<noteq> surrounded_message"
    unfolding if_not_P[OF ns] by blast
  with h show ?thesis by (rule conjI)
qed

text \<open>
  C5, as stated, fails: with \<open>simple_paths\<close> set and the serial transport, an
  empty batch publishes \<open>[4]\<close> and a string that lists "move forwards" and
  "stand still" only; "turn left" does not occur in it.
\<close>

theorem restricted_motion_counterexample:
  "simple_paths (default_config\<lparr>simple_paths := True\<rparr>) \<and>
   process (default_config\<lparr>simple_paths := True\<rparr>) [] =
     Inr \<lparr>raw_scan = [],
          lidar_string = ''The safe movement directions are: {'move forwards', 'stand still'}. '',
          valid_paths = [4]\<rparr> \<and>
   [4] \<noteq> ([]::nat list) \<and>
   \<not> sublist ''turn left''
     ''The safe movement directions are: {'move forwards', 'stand still'}. ''"
  using process_empty_simple no_turn_left by simp

text \<open>
  C5, amended. The fixed repertoire is selected by \<open>use_zenoh\<close>, not by
  \<open>simple_paths\<close>. When \<open>use_zenoh\<close> is set and \<open>valid_paths\<close> is not empty,
  \<open>lidar_string\<close> lists "turn left" and "turn right", then "move forwards"
  exactly when corridor 4 is in \<open>valid_paths\<close>, then "stand still". When
  \<open>simple_paths\<close> is set as well and the transformed array is empty,
  \<open>valid_paths\<close> is \<open>[4]\<close> and the string lists "turn left", "turn right",
  "move forwards", "stand still".
\<close>

theorem zenoh_movement_string:
  assumes "use_zenoh cfg"
  shows "\<exists>s. process cfg data = Inr s \<and>
     (valid_paths s \<noteq> [] \<longrightarrow>
        lidar_string s =
          ''The safe movement directions are: {'turn left', 'turn right', '' @
          (if 4 \<in> set (valid_paths s) then '''move forwards', '' else []) @
          '''stand still'}. '') \<and>
     (simple_paths cfg \<and> transform_coordinates cfg data = [] \<longrightarrow>
        valid_paths s = [4] \<and>
        lidar_string s =
          ''The safe movement directions are: {'turn left', 'turn right', 'move forwards', 'stand still'}. '')"
proof -
  let ?arr = "transform_coordinates cfg data"
  let ?s = "\<lparr>raw_scan = sort_key (\<lambda>(x, y, angle, d). angle) ?arr,
             lidar_string = movement_string cfg (survivors cfg ?arr),
             valid_paths = survivors cfg ?arr\<rparr>"
  have p: "process cfg data = Inr ?s" by (rule process_eq)
  have a: "valid_paths ?s \<noteq> [] \<longrightarrow>
        lidar_string ?s =
          ''The safe movement directions are: {'turn left', 'turn right', '' @
          (if 4 \<in> set (valid_paths ?s) then '''move forwards', '' else []) @
          '''stand still'}. ''"
    using movement_string_zenoh[OF assms, of "survivors cfg ?arr"] by simp
  have b: "simple_paths cfg \<and> ?arr = [] \<longrightarrow>
        valid_paths ?s = [4] \<and>
        lidar_string ?s =
          ''The safe movement directions are: {'turn left', 'turn right', 'move forwards', 'stand still'}. ''"
  proof
    assume h: "simple_paths cfg \<and> ?arr = []"
    then have sv: "survivors cfg ?arr = [4]" by (simp add: survivors_def)
    show "valid_paths ?s = [4] \<and>
        lidar_string ?s =
          ''The safe movement directions are: {'turn left', 'turn right', 'move forwards', 'stand still'}. ''"
      using movement_string_zenoh[OF assms, of "[4]"] by (simp add: sv)
  qed
  from p a b show ?thesis by blast
qed

theorem zenoh_movement_string_witness:
  "use_zenoh (default_config\<lparr>use_zenoh := True, simple_paths := True\<rparr>) \<and>
   simple_paths (default_config\<lparr>use_zenoh := True, simple_paths := True\<rparr>) \<and>
   transform_coordinates (default_config\<lparr>use_zenoh := True, simple_paths := True\<rparr>) [] = [] \<and>
   (\<exists>s. process (default_config\<lparr>use_zenoh := True, simple_paths := True\<rparr>) [] = Inr s \<and>
        valid_paths s = [4] \<and> valid_paths s \<noteq> [] \<and>
        lidar_string s =
          ''The safe movement directions are: {'turn left', 'turn right', 'move forwards', 'stand still'}. '')"
proof -
  let ?cfg = "default_config\<lparr>use_zenoh := True, simple_paths := True\<rparr>"
  have z: "use_zenoh ?cfg" and sp: "simple_paths ?cfg" by simp_all
  have e: "transform_coordinates ?cfg [] = []" by simp
  from zenoh_movement_string[OF z, of "[]"] obtain s where
    s: "process ?cfg [] = Inr s"
    and imp: "simple_paths ?cfg \<and> transform_coordinates ?cfg [] = [] \<longrightarrow>
        valid_paths s = [4] \<and>
        lidar_string s =
          ''The safe movement directions are: {'turn left', 'turn right', 'move forwards', 'stand still'}. ''"
    by blast
  from imp sp e have v: "valid_paths s = [4]"
    and l: "lidar_string s =
          ''The safe movement directions are: {'turn left', 'turn right', 'move forwards', 'stand still'}. ''"
    by blast+
  from v have ne: "valid_paths s \<noteq> []" by simp
  from s v ne l have "\<exists>s. process ?cfg [] = Inr s \<and>
        valid_paths s = [4] \<and> valid_paths s \<noteq> [] \<and>
        lidar_string s =
          ''The safe movement directions are: {'turn left', 'turn right', 'move forwards', 'stand still'}. ''"
    by blast
  then show ?thesis by (intro conjI z sp e)
qed

text \<open>
  C6, as stated, fails: for the single reading at sensor angle 180 and distance
  0.5 under the default configuration, corridor 4 stays in \<open>valid_paths\<close> and
  \<open>lidar_string\<close> lists "move forwards".
\<close>

theorem scenario1_counterexample:
  "process default_config [(180, 1/2)] =
     Inr \<lparr>raw_scan = [(0, - (1/2), - 180, 1/2)],
          lidar_string = ''The safe movement directions are: {'turn left', 'move forwards', 'turn right', 'stand still'}. '',
          valid_paths = [0, 1, 2, 3, 4, 5, 6, 7, 8]\<rparr> \<and>
   4 \<in> set [0, 1, 2, 3, 4, 5, 6, 7, 8::nat] \<and>
   sublist ''move forwards''
     ''The safe movement directions are: {'turn left', 'move forwards', 'turn right', 'stand still'}. ''"
  using scenario_behind lists_forwards by simp

text \<open>
  C6, amended. Under the default configuration (half width 0.20, relevant
  distance 1.1, mounting angle 180, no blanking) the reading at sensor angle 180
  and distance 0.5 has robot-frame angle -180 and becomes the point (0, -0.5):
  corridor 9 (retreat) is pruned, corridors 0..8 survive, and \<open>lidar_string\<close>
  lists "turn left", "move forwards", "turn right", "stand still" but not
  "move back". The reading at sensor angle 0 is the one with robot-frame angle 0;
  it becomes the point (0, 0.5): corridors 2..6, among them corridor 4, are
  pruned, corridors 0, 1, 7, 8, 9 survive, and \<open>lidar_string\<close> lists
  "turn left", "turn right", "move back", "stand still" but not "move forwards".
\<close>

theorem scenario1_readings:
  "default_config =
     \<lparr>half_width_robot = 0.20, angles_blanked = [], max_relevant_distance = 1.1,
      sensor_mounting_angle = 180.0, use_zenoh = False, simple_paths = False\<rparr> \<and>
   robot_angle default_config 180 = - 180 \<and>
   process default_config [(180, 0.5)] =
     Inr \<lparr>raw_scan = [(0, - 0.5, - 180, 0.5)],
          lidar_string = ''The safe movement directions are: {'turn left', 'move forwards', 'turn right', 'stand still'}. '',
          valid_paths = [0, 1, 2, 3, 4, 5, 6, 7, 8]\<rparr> \<and>
   \<not> sublist ''move back''
     ''The safe movement directions are: {'turn left', 'move forwards', 'turn right', 'stand still'}. '' \<and>
   robot_angle default_config 0 = 0 \<and>
   process default_config [(0, 0.5)] =
     Inr \<lparr>raw_scan = [(0, 0.5, 0, 0.5)],
          lidar_string = ''The safe movement directions are: {'turn left', 'turn right', 'move back', 'stand still'}. '',
          valid_paths = [0, 1, 7, 8, 9]\<rparr> \<and>
   \<not> sublist ''move forwards''
     ''The safe movement directions are: {'turn left', 'turn right', 'move back', 'stand still'}. ''"
proof -
  have a: "robot_angle default_config 180 = - 180" "robot_angle default_config 0 = 0"
    by (simp_all add: robot_angle_def default_config_def)
  have h: "(0.5::real) = 1/2" by simp
  show ?thesis
    unfolding h using scenario_behind scenario_ahead no_move_back no_forwards a
    by (simp add: default_config_def)
qed

text \<open>
  C9, as stated, fails: after a cycle on an empty batch, the first assignment of
  the next cycle, run on a reading 0.1 m ahead, leaves the new \<open>raw_scan\<close>
  next to the old \<open>lidar_string\<close> and the old \<open>valid_paths\<close> 0..9, and the
  second leaves the surrounded message next to the old \<open>valid_paths\<close>; the new
  \<open>valid_paths\<close> is empty.
\<close>

theorem torn_snapshot_counterexample:
  "process_states default_config initial_provider [] =
     Inr [\<lparr>attr_raw_scan = Some [], attr_lidar_string = None, attr_valid_paths = None\<rparr>,
          \<lparr>attr_raw_scan = Some [],
           attr_lidar_string = Some ''The safe movement directions are: {'turn left', 'move forwards', 'turn right', 'move back', 'stand still'}. '',
           attr_valid_paths = None\<rparr>,
          \<lparr>attr_raw_scan = Some [],
           attr_lidar_string = Some ''The safe movement directions are: {'turn left', 'move forwards', 'turn right', 'move back', 'stand still'}. '',
           attr_valid_paths = Some [0, 1, 2, 3, 4, 5, 6, 7, 8, 9]\<rparr>] \<and>
   process_states default_config
       \<lparr>attr_raw_scan = Some [],
        attr_lidar_string = Some ''The safe movement directions are: {'turn left', 'move forwards', 'turn right', 'move back', 'stand still'}. '',
        attr_valid_paths = Some [0, 1, 2, 3, 4, 5, 6, 7, 8, 9]\<rparr>
       [(0, 1/10)] =
     Inr [\<lparr>attr_raw_scan = Some [(0, 1/10, 0, 1/10)],
           attr_lidar_string = Some ''The safe movement directions are: {'turn left', 'move forwards', 'turn right', 'move back', 'stand still'}. '',
           attr_valid_paths = Some [0, 1, 2, 3, 4, 5, 6, 7, 8, 9]\<rparr>,
          \<lparr>attr_raw_scan = Some [(0, 1/10, 0, 1/10)],
           attr_lidar_string = Some ''You are surrounded by objects and cannot safely move in any direction. DO NOT MOVE.'',
           attr_valid_paths = Some [0, 1, 2, 3, 4, 5, 6, 7, 8, 9]\<rparr>,
          \<lparr>attr_raw_scan = Some [(0, 1/10, 0, 1/10)],
           attr_lidar_string = Some ''You are surrounded by objects and cannot safely move in any direction. DO NOT MOVE.'',
           attr_valid_paths = Some []\<rparr>] \<and>
   [(0, 1/10, 0, 1/10)] \<noteq> ([]::tpoint list) \<and>
   [0, 1, 2, 3, 4, 5, 6, 7, 8, 9] \<noteq> ([]::nat list)"
  using process_empty_default process_close
  by (simp add: process_states_def publish_def initial_provider_def)

text \<open>
  C9, amended. The three fields are written once per cycle by three separate
  assignments, in the order \<open>raw_scan\<close>, \<open>lidar_string\<close>, \<open>valid_paths\<close>,
  without a lock. After the third assignment the three fields are those of the
  cycle that just ran. After the first assignment the attributes hold the new
  \<open>raw_scan\<close> together with the \<open>valid_paths\<close> of the cycle before, so that a
  reader can observe fields of two different cycles whenever the two cycles
  differ in \<open>valid_paths\<close>.
\<close>

theorem publish_states:
  "\<exists>s. process cfg data = Inr s \<and>
       process_states cfg st data =
         Inr [st\<lparr>attr_raw_scan := Some (raw_scan s)\<rparr>,
              st\<lparr>attr_raw_scan := Some (raw_scan s), attr_lidar_string := Some (lidar_string s)\<rparr>,
              \<lparr>attr_raw_scan = Some (raw_scan s), attr_lidar_string = Some (lidar_string s),
               attr_valid_paths = Some (valid_paths s)\<rparr>] \<and>
       (attr_valid_paths st \<noteq> Some (valid_paths s) \<longrightarrow>
          attr_raw_scan (st\<lparr>attr_raw_scan := Some (raw_scan s)\<rparr>) = Some (raw_scan s) \<and>
          attr_valid_paths (st\<lparr>attr_raw_scan := Some (raw_scan s)\<rparr>) = attr_valid_paths st \<and>
          attr_valid_paths (st\<lparr>attr_raw_scan := Some (raw_scan s)\<rparr>) \<noteq> Some (valid_paths s))"
  by (cases st) (simp add: process_eq process_states_def publish_def Let_def)

theorem publish_states_witness:
  "attr_valid_paths
     \<lparr>attr_raw_scan = Some [],
      attr_lidar_string = Some ''The safe movement directions are: {'turn left', 'move forwards', 'turn right', 'move back', 'stand still'}. '',
      attr_valid_paths = Some [0, 1, 2, 3, 4, 5, 6, 7, 8, 9]\<rparr> \<noteq> Some [] \<and>
   (\<exists>s. process default_config [(0, 1/10)] = Inr s \<and> valid_paths s = [] \<and>
      attr_valid_paths
        (\<lparr>attr_raw_scan = Some [],
          attr_lidar_string = Some ''The safe movement directions are: {'turn left', 'move forwards', 'turn right', 'move back', 'stand still'}. '',
          attr_valid_paths = Some [0, 1, 2, 3, 4, 5, 6, 7, 8, 9]\<rparr>
           \<lparr>attr_raw_scan := Some (raw_scan s)\<rparr>) \<noteq> Some (valid_paths s))"
proof -
  let ?st = "\<lparr>attr_raw_scan = Some [],
      attr_lidar_string = Some ''The safe movement directions are: {'turn left', 'move forwards', 'turn right', 'move back', 'stand still'}. '',
      attr_valid_paths = Some [0, 1, 2, 3, 4, 5, 6, 7, 8, 9::nat]\<rparr>"
  have h: "attr_valid_paths ?st \<noteq> Some []" by simp
  from publish_states[of default_config "[(0, 1/10)]" ?st] obtain s where
    s: "process default_config [(0, 1/10)] = Inr s"
    and imp: "attr_valid_paths ?st \<noteq> Some (valid_paths s) \<longrightarrow>
          attr_raw_scan (?st\<lparr>attr_raw_scan := Some (raw_scan s)\<rparr>) = Some (raw_scan s) \<and>
          attr_valid_paths (?st\<lparr>attr_raw_scan := Some (raw_scan s)\<rparr>) = attr_valid_paths ?st \<and>
          attr_valid_paths (?st\<lparr>attr_raw_scan := Some (raw_scan s)\<rparr>) \<noteq> Some (valid_paths s)"
    by blast
  from s[unfolded process_close] have v: "valid_paths s = []" by auto
  with h have "attr_valid_paths ?st \<noteq> Some (valid_paths s)" by simp
  with imp have "attr_valid_paths (?st\<lparr>attr_raw_scan := Some (raw_scan s)\<rparr>) \<noteq> Some (valid_paths s)"
    by blast
  with s v have "\<exists>s. process default_config [(0, 1/10)] = Inr s \<and> valid_paths s = [] \<and>
      attr_valid_paths (?st\<lparr>attr_raw_scan := Some (raw_scan s)\<rparr>) \<noteq> Some (valid_paths s)"
    by blast
  with h show ?thesis by (rule conjI)
qed

end
